theory Spec2Isabelle
  imports Complex_Main "HOL-Library.Word"
begin

unbundle bit_operations_syntax

section \<open>Data model (cost\_estimator.h)\<close>

type_synonym u8 = "8 word"
type_synonym u32 = "32 word"
type_synonym u64 = "64 word"

text \<open>\<^verbatim>\<open>using Script = std::vector<uint8_t>\<close>\<close>

type_synonym Script = "u8 list"

text \<open>
  \<^verbatim>\<open>enum class OpCode : uint8_t\<close>. Every byte can be cast to \<^verbatim>\<open>OpCode\<close>, so an opcode is
  a byte and the enumerators are names of bytes.
\<close>

abbreviation (input) OP_DUP :: u8 where "OP_DUP \<equiv> 0x76"
abbreviation (input) OP_SWAP :: u8 where "OP_SWAP \<equiv> 0x7c"
abbreviation (input) OP_CAT :: u8 where "OP_CAT \<equiv> 0x7e"
abbreviation (input) OP_SPLIT :: u8 where "OP_SPLIT \<equiv> 0x7f"
abbreviation (input) OP_SHA256 :: u8 where "OP_SHA256 \<equiv> 0xa8"
abbreviation (input) OP_HASH256 :: u8 where "OP_HASH256 \<equiv> 0xaa"
abbreviation (input) OP_CHECKSIG :: u8 where "OP_CHECKSIG \<equiv> 0xac"
abbreviation (input) OP_CHECKMULTISIG :: u8 where "OP_CHECKMULTISIG \<equiv> 0xae"
abbreviation (input) OP_PUSHDATA1 :: u8 where "OP_PUSHDATA1 \<equiv> 0x4c"
abbreviation (input) OP_PUSHDATA2 :: u8 where "OP_PUSHDATA2 \<equiv> 0x4d"
abbreviation (input) OP_PUSHDATA4 :: u8 where "OP_PUSHDATA4 \<equiv> 0x4e"

text \<open>\<^verbatim>\<open>enum SigHashType : uint32_t\<close>\<close>

abbreviation (input) SIGHASH_ALL :: u32 where "SIGHASH_ALL \<equiv> 0x01"
abbreviation (input) SIGHASH_NONE :: u32 where "SIGHASH_NONE \<equiv> 0x02"
abbreviation (input) SIGHASH_SINGLE :: u32 where "SIGHASH_SINGLE \<equiv> 0x03"
abbreviation (input) SIGHASH_ANYONECANPAY :: u32 where "SIGHASH_ANYONECANPAY \<equiv> 0x80"

record TxInput =
  prevout_hash :: "u8 list"
  prevout_index :: u32
  script_sig :: Script
  sequence :: u32

text \<open>The field \<^verbatim>\<open>value\<close> of \<^verbatim>\<open>TxOutput\<close> is named \<open>amount\<close> here.\<close>

record TxOutput =
  amount :: u64
  script_pubkey :: Script

record Transaction =
  version :: u32
  inputs :: "TxInput list"
  outputs :: "TxOutput list"
  locktime :: u32

section \<open>The sighash preimage size (calculate\_sighash\_size)\<close>

text \<open>
  \<^verbatim>\<open>tx.inputs[input_index]\<close> is an unchecked \<^verbatim>\<open>std::vector::operator[]\<close>: out of range it
  is undefined behaviour, which the model returns as \<open>None\<close>. The two range-based
  \<^verbatim>\<open>for\<close> loops are left folds over the vectors. \<^verbatim>\<open>size\<close> is a \<^verbatim>\<open>uint64_t\<close>.
\<close>

definition calculate_sighash_size :: "Transaction \<Rightarrow> u32 \<Rightarrow> u32 \<Rightarrow> u64 option" where
  "calculate_sighash_size tx input_index sighash_type =
     (let base_type = sighash_type AND 0x1f;
          anyone_can_pay = (sighash_type AND SIGHASH_ANYONECANPAY \<noteq> 0);
          size0 = (4 :: u64)
      in case (if anyone_can_pay then
                 (if unat input_index < length (inputs tx)
                  then Some (size0 + (1 + 36 + 1
                         + of_nat (length (script_sig (inputs tx ! unat input_index))) + 4))
                  else None)
               else Some (foldl (\<lambda>sz inp. sz + (36 + 1 + of_nat (length (script_sig inp)) + 4))
                                (size0 + 1) (inputs tx)))
         of None \<Rightarrow> None
          | Some size1 \<Rightarrow>
              let size2 =
                (if base_type = SIGHASH_SINGLE then
                   (if unat input_index < length (outputs tx)
                    then size1 + (1 + 8 + 1
                           + of_nat (length (script_pubkey (outputs tx ! unat input_index))))
                    else size1)
                 else if base_type = SIGHASH_NONE then size1 + 1
                 else foldl (\<lambda>sz out. sz + (8 + 1 + of_nat (length (script_pubkey out))))
                            (size1 + 1) (outputs tx))
              in Some (size2 + 4 + 4))"

section \<open>The cost model (cost\_estimator.cpp)\<close>

text \<open>
  The coefficients are C++ \<^verbatim>\<open>double\<close>s. A finite double is a real number; an arithmetic
  operation on doubles returns the rounding of the exact result. The rounding function
  \<open>rnd\<close> is a parameter of every definition that computes with doubles, so what is
  proved holds for each rounding (the identity is exact arithmetic). Infinities and
  NaNs are not modelled.
\<close>

definition fadd :: "(real \<Rightarrow> real) \<Rightarrow> real \<Rightarrow> real \<Rightarrow> real" where
  "fadd rnd x y = rnd (x + y)"

definition fmul :: "(real \<Rightarrow> real) \<Rightarrow> real \<Rightarrow> real \<Rightarrow> real" where
  "fmul rnd x y = rnd (x * y)"

text \<open>The implicit conversion of a \<^verbatim>\<open>uint64_t\<close> or \<^verbatim>\<open>size_t\<close> operand to \<^verbatim>\<open>double\<close>.\<close>

definition from_nat :: "(real \<Rightarrow> real) \<Rightarrow> nat \<Rightarrow> real" where
  "from_nat rnd n = rnd (real n)"

definition from_u64 :: "(real \<Rightarrow> real) \<Rightarrow> u64 \<Rightarrow> real" where
  "from_u64 rnd n = from_nat rnd (unat n)"

text \<open>
  \<^verbatim>\<open>static_cast<uint64_t>(x)\<close> truncates towards zero. C++ defines it for
  \<open>-1 < x < 2 ^ 64\<close> only; there \<open>trunc_cycles x\<close> is its value, and \<open>to_u64\<close> the
  same value as a 64-bit word. Outside that range the conversion is undefined behaviour
  and the value of the model (\<open>0\<close> for a negative \<open>x\<close>, wrapped for a large one) is not
  the program's: a property that depends on the value of a conversion holds for the
  program only where its argument is in the range, and says so in its hypotheses.
\<close>

definition trunc_cycles :: "real \<Rightarrow> nat" where
  "trunc_cycles x = nat \<lfloor>x\<rfloor>"

definition to_u64 :: "real \<Rightarrow> u64" where
  "to_u64 x = of_nat (trunc_cycles x)"

datatype Type = CONSTANT | LINEAR | SIGNATURE | MULTISIG

record OpcodeCostModel =
  type :: Type
  c0 :: real
  c1 :: real
  c_ecdsa :: real
  c_preimage_per_byte :: real
  c_keyscan :: real
  c_setup :: real
  c_alloc :: real

text \<open>
  The data members of \<^verbatim>\<open>CostEstimator::Impl\<close> that \<^verbatim>\<open>estimate\<close> reads;
  \<^verbatim>\<open>std::map<OpCode, OpcodeCostModel>\<close> is a partial map.
\<close>

record Impl =
  c_dispatch :: real
  c_parse_per_byte :: real
  opcode_costs :: "u8 \<rightharpoonup> OpcodeCostModel"

definition calculate_opcode_cost :: "(real \<Rightarrow> real) \<Rightarrow> Impl \<Rightarrow> u8 \<Rightarrow> u64 list \<Rightarrow> u64" where
  "calculate_opcode_cost rnd impl op params =
     (case opcode_costs impl op of
        None \<Rightarrow> 100
      | Some model \<Rightarrow>
          (case type model of
             CONSTANT \<Rightarrow> to_u64 (c0 model)
           | LINEAR \<Rightarrow>
               let n = (if params = [] then 0 else params ! 0)
               in to_u64 (fadd rnd (fadd rnd (c0 model) (fmul rnd (c1 model) (from_u64 rnd n)))
                                   (c_alloc model))
           | SIGNATURE \<Rightarrow>
               let preimage_size = (if params = [] then 1000 else params ! 0)
               in to_u64 (fadd rnd (c_ecdsa model)
                                   (fmul rnd (c_preimage_per_byte model) (from_u64 rnd preimage_size)))
           | MULTISIG \<Rightarrow>
               let m = (if length params > 0 then params ! 0 else 1);
                   n = (if length params > 1 then params ! 1 else 3);
                   preimage_size = (if length params > 2 then params ! 2 else 1000)
               in to_u64
                    (fadd rnd
                       (fadd rnd
                          (fmul rnd (from_u64 rnd m)
                             (fadd rnd (c_ecdsa model)
                                (fmul rnd (c_preimage_per_byte model) (from_u64 rnd preimage_size))))
                          (fmul rnd (from_u64 rnd (n - m)) (c_keyscan model)))
                       (c_setup model))))"

section \<open>The estimate and the state of the symbolic execution\<close>

record Breakdown =
  parsing :: u64
  dispatch :: u64
  stack_ops :: u64
  byte_ops :: u64
  hashing :: u64
  signatures :: u64
  control_flow :: u64

record CostEstimate =
  total_cycles :: u64
  breakdown :: Breakdown
  peak_stack_bytes :: u64
  peak_stack_items :: u32
  signature_count :: u32
  opcode_count :: u32
  warnings :: "string list"

record EstimatorLimits =
  max_script_size :: u64
  max_stack_items :: u32
  max_stack_item_size :: u64
  max_opcode_count :: u32
  max_total_cycles :: u64

text \<open>The default member initialisers of \<^verbatim>\<open>EstimatorLimits\<close>.\<close>

definition default_limits :: EstimatorLimits where
  "default_limits =
     \<lparr>max_script_size = 100000000, max_stack_items = 10000,
      max_stack_item_size = 100000000, max_opcode_count = 1000000,
      max_total_cycles = 10000000000\<rparr>"

text \<open>
  The local variables of \<^verbatim>\<open>CostEstimator::Impl::estimate\<close> that live across the loop.
  \<open>stack_sizes\<close> is the vector in its own order: the top of the stack is the last
  element.
\<close>

record exec_state =
  result :: CostEstimate
  stack_sizes :: "u64 list"
  current_stack_bytes :: u64
  pc :: nat

text \<open>The compound assignments \<^verbatim>\<open>result.f += c\<close>.\<close>

definition add_total :: "u64 \<Rightarrow> exec_state \<Rightarrow> exec_state" where
  "add_total c = result_update (total_cycles_update (\<lambda>x. x + c))"

definition add_dispatch :: "u64 \<Rightarrow> exec_state \<Rightarrow> exec_state" where
  "add_dispatch c = result_update (breakdown_update (dispatch_update (\<lambda>x. x + c)))"

definition add_stack_ops :: "u64 \<Rightarrow> exec_state \<Rightarrow> exec_state" where
  "add_stack_ops c = result_update (breakdown_update (stack_ops_update (\<lambda>x. x + c)))"

definition add_byte_ops :: "u64 \<Rightarrow> exec_state \<Rightarrow> exec_state" where
  "add_byte_ops c = result_update (breakdown_update (byte_ops_update (\<lambda>x. x + c)))"

definition add_hashing :: "u64 \<Rightarrow> exec_state \<Rightarrow> exec_state" where
  "add_hashing c = result_update (breakdown_update (hashing_update (\<lambda>x. x + c)))"

definition add_signatures :: "u64 \<Rightarrow> exec_state \<Rightarrow> exec_state" where
  "add_signatures c = result_update (breakdown_update (signatures_update (\<lambda>x. x + c)))"

definition add_warning :: "string \<Rightarrow> exec_state \<Rightarrow> exec_state" where
  "add_warning w = result_update (warnings_update (\<lambda>ws. ws @ [w]))"

text \<open>
  The \<^verbatim>\<open>switch (op)\<close> of the loop body: the state after the case that \<open>op\<close> selects,
  and the vector \<^verbatim>\<open>params\<close> as that case leaves it. \<^verbatim>\<open>OP_CHECKSIG\<close> passes the
  preimage size to the cost model in a temporary and leaves \<^verbatim>\<open>params\<close> empty; it calls
  \<open>calculate_sighash_size\<close> with \<^verbatim>\<open>SIGHASH_ALL\<close>, which never reads \<^verbatim>\<open>tx.inputs[i]\<close>, so
  the \<open>None\<close> case is not reachable.
\<close>

definition exec_switch ::
  "(real \<Rightarrow> real) \<Rightarrow> Impl \<Rightarrow> Transaction \<Rightarrow> u32 \<Rightarrow> u8 \<Rightarrow> exec_state \<Rightarrow> exec_state \<times> u64 list" where
  "exec_switch rnd impl tx input_index op s =
     (let st = stack_sizes s in
      if op = OP_DUP then
        (let (s1, params) =
           (if st \<noteq> [] then
              let top_size = last st
              in (s\<lparr>stack_sizes := st @ [top_size],
                     current_stack_bytes := current_stack_bytes s + top_size\<rparr>, [top_size])
            else (s, []))
         in (add_stack_ops (calculate_opcode_cost rnd impl op params) s1, params))
      else if op = OP_SWAP then
        (let s1 =
           (if length st \<ge> 2 then
              s\<lparr>stack_sizes := st[length st - 1 := st ! (length st - 2),
                                    length st - 2 := st ! (length st - 1)]\<rparr>
            else s)
         in (add_stack_ops (calculate_opcode_cost rnd impl op []) s1, []))
      else if op = OP_CAT then
        (let (s1, params) =
           (if length st \<ge> 2 then
              let size_b = last st; st1 = butlast st;
                  size_a = last st1; st2 = butlast st1;
                  result_size = size_a + size_b
              in (s\<lparr>stack_sizes := st2 @ [result_size],
                     current_stack_bytes := current_stack_bytes s - size_a - size_b + result_size\<rparr>,
                  [result_size])
            else (s, []))
         in (add_byte_ops (calculate_opcode_cost rnd impl op params) s1, params))
      else if op = OP_SHA256 \<or> op = OP_HASH256 then
        (let (s1, params) =
           (if st \<noteq> [] then
              let input_size = last st
              in (s\<lparr>stack_sizes := butlast st @ [32],
                     current_stack_bytes := current_stack_bytes s - input_size + 32\<rparr>, [input_size])
            else (s, []))
         in (add_hashing (calculate_opcode_cost rnd impl op params) s1, params))
      else if op = OP_CHECKSIG then
        (case calculate_sighash_size tx input_index SIGHASH_ALL of
           None \<Rightarrow> (s, [])
         | Some preimage_size \<Rightarrow>
             let s1 = add_signatures (calculate_opcode_cost rnd impl op [preimage_size]) s;
                 s2 = result_update (signature_count_update (\<lambda>n. n + 1)) s1;
                 s3 = (if length st \<ge> 2
                       then s2\<lparr>stack_sizes := butlast (butlast st) @ [1]\<rparr> else s2)
             in (s3, []))
      else (add_total 100 s, []))"

text \<open>\<^verbatim>\<open>// Track peak stack usage\<close>\<close>

definition track_peaks :: "exec_state \<Rightarrow> exec_state" where
  "track_peaks s =
     result_update
       (\<lambda>r. r\<lparr>peak_stack_bytes := max (peak_stack_bytes r) (current_stack_bytes s),
              peak_stack_items := max (peak_stack_items r) (of_nat (length (stack_sizes s)))\<rparr>) s"

text \<open>
  The head of the loop body: \<^verbatim>\<open>combined[pc++]\<close>, \<^verbatim>\<open>result.opcode_count++\<close>, and the
  dispatch overhead charged to \<open>dispatch\<close> and to \<open>total_cycles\<close>.
\<close>

definition fetch_dispatch :: "Impl \<Rightarrow> exec_state \<Rightarrow> exec_state" where
  "fetch_dispatch impl s =
     (let s1 = s\<lparr>pc := pc s + 1\<rparr>;
          s2 = result_update (opcode_count_update (\<lambda>n. n + 1)) s1
      in add_total (to_u64 (c_dispatch impl)) (add_dispatch (to_u64 (c_dispatch impl)) s2))"

text \<open>
  One iteration of the \<^verbatim>\<open>while\<close> loop, from the fetch of the opcode byte to the peak
  tracking; the caller has checked \<open>pc s < length combined\<close> and the opcode count.
\<close>

definition exec_opcode ::
  "(real \<Rightarrow> real) \<Rightarrow> Impl \<Rightarrow> Script \<Rightarrow> Transaction \<Rightarrow> u32 \<Rightarrow> exec_state \<Rightarrow> exec_state" where
  "exec_opcode rnd impl combined tx input_index s =
     (let op_byte = combined ! pc s;
          s3 = fetch_dispatch impl s;
          s4 =
            (if 0 < op_byte \<and> op_byte < 0x4c then
               let push_size = (ucast op_byte :: u64)
               in s3\<lparr>pc := pc s3 + unat push_size,
                      stack_sizes := stack_sizes s3 @ [push_size],
                      current_stack_bytes := current_stack_bytes s3 + push_size\<rparr>
             else if op_byte = OP_PUSHDATA1 \<and> pc s3 < length combined then
               let push_size = (ucast (combined ! pc s3) :: u64)
               in s3\<lparr>pc := pc s3 + 1 + unat push_size,
                      stack_sizes := stack_sizes s3 @ [push_size],
                      current_stack_bytes := current_stack_bytes s3 + push_size\<rparr>
             else
               let (s', params) = exec_switch rnd impl tx input_index op_byte s3
               in add_total (calculate_opcode_cost rnd impl op_byte params) s')
      in track_peaks s4)"

lemma pc_exec_switch: "pc (fst (exec_switch rnd impl tx input_index op s)) = pc s"
  by (simp add: exec_switch_def Let_def add_total_def add_stack_ops_def add_byte_ops_def
      add_hashing_def add_signatures_def split: option.split)

lemma pc_exec_opcode: "pc s < pc (exec_opcode rnd impl combined tx input_index s)"
proof -
  have sw: "pc (fst (exec_switch rnd impl tx input_index op t)) = pc t" for op t
    by (rule pc_exec_switch)
  show ?thesis
    using sw [of "combined ! pc s"]
    by (simp add: exec_opcode_def fetch_dispatch_def Let_def track_peaks_def add_total_def
        add_dispatch_def split_beta)
qed

text \<open>
  The \<^verbatim>\<open>while (pc < combined.size())\<close> loop with its three \<^verbatim>\<open>break\<close>s. It terminates
  because every iteration advances \<open>pc\<close>.
\<close>

function exec_loop ::
  "(real \<Rightarrow> real) \<Rightarrow> Impl \<Rightarrow> Script \<Rightarrow> Transaction \<Rightarrow> u32 \<Rightarrow> EstimatorLimits \<Rightarrow> exec_state \<Rightarrow> exec_state" where
  "exec_loop rnd impl combined tx input_index limits s =
     (if pc s < length combined then
        if opcode_count (result s) \<ge> max_opcode_count limits then
          add_warning ''Opcode count limit exceeded'' s
        else
          let s' = exec_opcode rnd impl combined tx input_index s
          in if current_stack_bytes s' > max_stack_item_size limits then
               add_warning ''Stack byte limit exceeded'' s'
             else if length (stack_sizes s') > unat (max_stack_items limits) then
               add_warning ''Stack item count limit exceeded'' s'
             else exec_loop rnd impl combined tx input_index limits s'
      else s)"
  by pat_completeness auto
termination
  by (relation "measure (\<lambda>(rnd, impl, combined, tx, input_index, limits, s). length combined - pc s)")
     (auto intro: diff_less_mono2 pc_exec_opcode)

declare exec_loop.simps [simp del]

text \<open>
  \<^verbatim>\<open>CostEstimator::Impl::estimate\<close>. \<open>empty_result\<close> is \<^verbatim>\<open>result\<close> after its six
  initial assignments, \<open>start_state\<close> the locals when the loop is entered: parsing is
  charged, the stack is empty and \<open>pc\<close> is 0.
\<close>

definition empty_result :: CostEstimate where
  "empty_result =
     \<lparr>total_cycles = 0,
      breakdown = \<lparr>parsing = 0, dispatch = 0, stack_ops = 0, byte_ops = 0,
                   hashing = 0, signatures = 0, control_flow = 0\<rparr>,
      peak_stack_bytes = 0, peak_stack_items = 0, signature_count = 0,
      opcode_count = 0, warnings = []\<rparr>"

definition start_state :: "(real \<Rightarrow> real) \<Rightarrow> Impl \<Rightarrow> Script \<Rightarrow> exec_state" where
  "start_state rnd impl combined =
     (let parsing_cost = to_u64 (fmul rnd (c_parse_per_byte impl) (from_nat rnd (length combined)))
      in \<lparr>result = empty_result
                 \<lparr>breakdown := (breakdown empty_result)\<lparr>parsing := parsing_cost\<rparr>,
                  total_cycles := total_cycles empty_result + parsing_cost\<rparr>,
          stack_sizes = [], current_stack_bytes = 0, pc = 0\<rparr>)"

definition Impl_estimate ::
  "(real \<Rightarrow> real) \<Rightarrow> Impl \<Rightarrow> Script \<Rightarrow> Script \<Rightarrow> Transaction \<Rightarrow> u32 \<Rightarrow> EstimatorLimits \<Rightarrow> CostEstimate" where
  "Impl_estimate rnd impl unlocking_script locking_script tx input_index limits =
     (let combined = unlocking_script @ locking_script
      in if length combined > unat (max_script_size limits) then
           empty_result\<lparr>warnings := warnings empty_result @ [''Script exceeds size limit'']\<rparr>
         else
           result (exec_loop rnd impl combined tx input_index limits
                     (start_state rnd impl combined)))"

text \<open>The public API: \<^verbatim>\<open>CostEstimator::estimate\<close> and \<^verbatim>\<open>CostEstimator::estimate_with_limits\<close>.\<close>

definition estimate ::
  "(real \<Rightarrow> real) \<Rightarrow> Impl \<Rightarrow> Script \<Rightarrow> Script \<Rightarrow> Transaction \<Rightarrow> u32 \<Rightarrow> CostEstimate" where
  "estimate rnd pimpl unlocking_script locking_script tx input_index =
     (let default_limits' = default_limits
      in Impl_estimate rnd pimpl unlocking_script locking_script tx input_index default_limits')"

definition estimate_with_limits ::
  "(real \<Rightarrow> real) \<Rightarrow> Impl \<Rightarrow> Script \<Rightarrow> Script \<Rightarrow> Transaction \<Rightarrow> u32 \<Rightarrow> EstimatorLimits \<Rightarrow> CostEstimate" where
  "estimate_with_limits rnd pimpl unlocking_script locking_script tx input_index limits =
     Impl_estimate rnd pimpl unlocking_script locking_script tx input_index limits"

section \<open>The run of the loop, for stating properties of it\<close>

text \<open>
  The states in which the loop body is entered, in order: the same recursion as
  \<open>exec_loop\<close>, collecting the state before each iteration.
\<close>

function exec_trace ::
  "(real \<Rightarrow> real) \<Rightarrow> Impl \<Rightarrow> Script \<Rightarrow> Transaction \<Rightarrow> u32 \<Rightarrow> EstimatorLimits \<Rightarrow> exec_state \<Rightarrow> exec_state list" where
  "exec_trace rnd impl combined tx input_index limits s =
     (if pc s < length combined \<and> \<not> opcode_count (result s) \<ge> max_opcode_count limits then
        let s' = exec_opcode rnd impl combined tx input_index s
        in s # (if current_stack_bytes s' > max_stack_item_size limits
                   \<or> length (stack_sizes s') > unat (max_stack_items limits)
                then [] else exec_trace rnd impl combined tx input_index limits s')
      else [])"
  by pat_completeness auto
termination
  by (relation "measure (\<lambda>(rnd, impl, combined, tx, input_index, limits, s). length combined - pc s)")
     (auto intro: diff_less_mono2 pc_exec_opcode)

declare exec_trace.simps [simp del]

text \<open>The iterations of a call of \<open>Impl_estimate\<close>: none when the script is rejected.\<close>

definition executed_states ::
  "(real \<Rightarrow> real) \<Rightarrow> Impl \<Rightarrow> Script \<Rightarrow> Script \<Rightarrow> Transaction \<Rightarrow> u32 \<Rightarrow> EstimatorLimits \<Rightarrow> exec_state list" where
  "executed_states rnd impl unlocking_script locking_script tx input_index limits =
     (let combined = unlocking_script @ locking_script
      in if length combined > unat (max_script_size limits) then []
         else exec_trace rnd impl combined tx input_index limits (start_state rnd impl combined))"

text \<open>
  Whether the iteration entered in state \<open>s\<close> takes one of the two push branches
  (a direct push, or \<^verbatim>\<open>OP_PUSHDATA1\<close> with its length byte inside the script) rather than
  the \<^verbatim>\<open>switch\<close>.
\<close>

definition is_push :: "Script \<Rightarrow> exec_state \<Rightarrow> bool" where
  "is_push combined s =
     (let op_byte = combined ! pc s
      in (0 < op_byte \<and> op_byte < 0x4c)
         \<or> (op_byte = OP_PUSHDATA1 \<and> pc s + 1 < length combined))"

text \<open>The opcode bytes that the iterations hand to the \<^verbatim>\<open>switch\<close>, in order.\<close>

definition switched_opcodes :: "Script \<Rightarrow> exec_state list \<Rightarrow> u8 list" where
  "switched_opcodes combined states =
     map (\<lambda>s. combined ! pc s) (filter (\<lambda>s. \<not> is_push combined s) states)"

text \<open>The opcodes with a \<^verbatim>\<open>case\<close> label of their own in the \<^verbatim>\<open>switch\<close>.\<close>

definition has_case :: "u8 \<Rightarrow> bool" where
  "has_case op \<longleftrightarrow>
     op = OP_DUP \<or> op = OP_SWAP \<or> op = OP_CAT \<or> op = OP_SHA256 \<or> op = OP_HASH256
     \<or> op = OP_CHECKSIG"

text \<open>
  What an opcode adds to \<open>total_cycles\<close> when the \<^verbatim>\<open>default\<close> case takes it: the 100 of
  the \<^verbatim>\<open>default\<close> case and the cost model's figure for it with no parameter.
\<close>

definition default_case_cycles :: "(real \<Rightarrow> real) \<Rightarrow> Impl \<Rightarrow> u8 \<Rightarrow> u64" where
  "default_case_cycles rnd impl op =
     (if has_case op then 0 else 100 + calculate_opcode_cost rnd impl op [])"

definition unattributed_cycles ::
  "(real \<Rightarrow> real) \<Rightarrow> Impl \<Rightarrow> Script \<Rightarrow> Script \<Rightarrow> Transaction \<Rightarrow> u32 \<Rightarrow> EstimatorLimits \<Rightarrow> u64" where
  "unattributed_cycles rnd impl unlocking_script locking_script tx input_index limits =
     sum_list (map (default_case_cycles rnd impl)
       (switched_opcodes (unlocking_script @ locking_script)
          (executed_states rnd impl unlocking_script locking_script tx input_index limits)))"

definition breakdown_sum :: "Breakdown \<Rightarrow> u64" where
  "breakdown_sum b =
     parsing b + dispatch b + stack_ops b + byte_ops b + hashing b + signatures b
     + control_flow b"

text \<open>
  The part of \<open>total_cycles\<close> that no breakdown field records.
\<close>

definition unattributed :: "exec_state \<Rightarrow> u64" where
  "unattributed s = total_cycles (result s) - breakdown_sum (breakdown (result s))"


text \<open>
  The number of items that the \<^verbatim>\<open>case\<close> of an opcode asks the size stack for in its
  guard.
\<close>

definition required_items :: "u8 \<Rightarrow> nat" where
  "required_items op =
     (if op = OP_DUP \<or> op = OP_SHA256 \<or> op = OP_HASH256 then 1
      else if op = OP_SWAP \<or> op = OP_CAT \<or> op = OP_CHECKSIG then 2
      else 0)"

subsection \<open>Cycle figures before they are reduced to 64 bits\<close>











section \<open>The sighash size in closed form\<close>

text \<open>The bytes one input and one output contribute to the preimage.\<close>

definition input_bytes :: "TxInput \<Rightarrow> u64" where
  "input_bytes inp = 36 + 1 + of_nat (length (script_sig inp)) + 4"

definition output_bytes :: "TxOutput \<Rightarrow> u64" where
  "output_bytes out = 8 + 1 + of_nat (length (script_pubkey out))"

text \<open>
  The inputs section: a 1-byte count, and the current input alone when \<^verbatim>\<open>ANYONECANPAY\<close>
  is set, every input otherwise.
\<close>

definition inputs_section :: "Transaction \<Rightarrow> u32 \<Rightarrow> bool \<Rightarrow> u64" where
  "inputs_section tx i anyone_can_pay =
     1 + (if anyone_can_pay then input_bytes (inputs tx ! unat i)
          else sum_list (map input_bytes (inputs tx)))"

text \<open>
  The outputs section as the specification words it: for \<^verbatim>\<open>SINGLE\<close>, the output at
  index \<open>i\<close> if it exists, plus a 1-byte count.
\<close>

definition outputs_section_spec :: "Transaction \<Rightarrow> u32 \<Rightarrow> u32 \<Rightarrow> u64" where
  "outputs_section_spec tx i base_type =
     (if base_type = SIGHASH_SINGLE then
        (if unat i < length (outputs tx) then output_bytes (outputs tx ! unat i) else 0) + 1
      else if base_type = SIGHASH_NONE then 1
      else 1 + sum_list (map output_bytes (outputs tx)))"

text \<open>
  The outputs section with the count byte of \<^verbatim>\<open>SINGLE\<close> under the same condition as its
  output. Every base type other than \<^verbatim>\<open>SINGLE\<close> and \<^verbatim>\<open>NONE\<close> counts as \<^verbatim>\<open>ALL\<close>.
\<close>

definition outputs_section :: "Transaction \<Rightarrow> u32 \<Rightarrow> u32 \<Rightarrow> u64" where
  "outputs_section tx i base_type =
     (if base_type = SIGHASH_SINGLE then
        (if unat i < length (outputs tx) then 1 + output_bytes (outputs tx ! unat i) else 0)
      else if base_type = SIGHASH_NONE then 1
      else 1 + sum_list (map output_bytes (outputs tx)))"

section \<open>Example inputs\<close>

text \<open>The input and the output that tests/test\_estimator.cpp builds.\<close>

definition test_input :: TxInput where
  "test_input =
     \<lparr>prevout_hash = replicate 32 0, prevout_index = 0, script_sig = [],
      sequence = 0xffffffff\<rparr>"

definition test_output :: TxOutput where
  "test_output = \<lparr>amount = 100000, script_pubkey = [0x76, 0xa9, 0x14] @ replicate 22 0\<rparr>"

text \<open>A transaction with one input and one output, and one with two inputs and one output.\<close>

definition test_tx :: Transaction where
  "test_tx = \<lparr>version = 1, inputs = [test_input], outputs = [test_output], locktime = 0\<rparr>"

definition two_input_tx :: Transaction where
  "two_input_tx =
     \<lparr>version = 1, inputs = [test_input, test_input], outputs = [test_output], locktime = 0\<rparr>"

text \<open>
  A cost model whose coefficients are doubles that the arithmetic below treats exactly:
  the default dispatch constant 5.0, parsing at 0.5 cycles per byte, a constant
  \<^verbatim>\<open>OP_DUP\<close>, a linear \<^verbatim>\<open>OP_CAT\<close> and \<^verbatim>\<open>OP_SHA256\<close>, and a signature model for
  \<^verbatim>\<open>OP_CHECKSIG\<close> with the defaults 85000.0 and 2.5.
\<close>

definition constant_model :: "real \<Rightarrow> OpcodeCostModel" where
  "constant_model a =
     \<lparr>type = CONSTANT, c0 = a, c1 = 0, c_ecdsa = 0, c_preimage_per_byte = 0,
      c_keyscan = 0, c_setup = 0, c_alloc = 0\<rparr>"

definition linear_model :: "real \<Rightarrow> real \<Rightarrow> real \<Rightarrow> OpcodeCostModel" where
  "linear_model a b c =
     \<lparr>type = LINEAR, c0 = a, c1 = b, c_ecdsa = 0, c_preimage_per_byte = 0,
      c_keyscan = 0, c_setup = 0, c_alloc = c\<rparr>"

definition signature_model :: "real \<Rightarrow> real \<Rightarrow> OpcodeCostModel" where
  "signature_model a b =
     \<lparr>type = SIGNATURE, c0 = 0, c1 = 0, c_ecdsa = a, c_preimage_per_byte = b,
      c_keyscan = 0, c_setup = 0, c_alloc = 0\<rparr>"

definition example_impl :: Impl where
  "example_impl =
     \<lparr>c_dispatch = 5, c_parse_per_byte = 1 / 2,
      opcode_costs =
        [OP_DUP \<mapsto> constant_model 12,
         OP_CAT \<mapsto> linear_model 40 (1 / 4) 16,
         OP_SHA256 \<mapsto> linear_model 100 2 0,
         OP_CHECKSIG \<mapsto> signature_model 85000 (5 / 2)]\<rparr>"

text \<open>The same constants with no opcode entry: every opcode takes the fallback.\<close>

definition empty_impl :: Impl where
  "empty_impl = \<lparr>c_dispatch = 5, c_parse_per_byte = 1 / 2, opcode_costs = Map.empty\<rparr>"




text \<open>Limits that admit scripts of at most two bytes.\<close>

definition two_byte_limits :: EstimatorLimits where
  "two_byte_limits = default_limits\<lparr>max_script_size := 2\<rparr>"

section \<open>Properties of calculate\_sighash\_size\<close>

lemma foldl_add_sum_list:
  "foldl (\<lambda>sz x. sz + f x) a xs = a + sum_list (map f xs)" for a :: u64
  by (induction xs arbitrary: a) (simp_all add: add.assoc)

lemma sighash_inputs_fold:
  "foldl (\<lambda>sz inp. sz + (36 + 1 + of_nat (length (script_sig inp)) + 4)) a xs
     = a + sum_list (map input_bytes xs)" for a :: u64
  using foldl_add_sum_list [of input_bytes a xs] by (simp add: input_bytes_def)

lemma sighash_outputs_fold:
  "foldl (\<lambda>sz out. sz + (8 + 1 + of_nat (length (script_pubkey out)))) a xs
     = a + sum_list (map output_bytes xs)" for a :: u64
  using foldl_add_sum_list [of output_bytes a xs] by (simp add: output_bytes_def)

text \<open>
  C10. \<open>calculate_sighash_size\<close> reads \<^verbatim>\<open>tx.inputs[input_index]\<close> unchecked exactly when
  \<^verbatim>\<open>ANYONECANPAY\<close> is set: it has a defined result whenever \<^verbatim>\<open>ANYONECANPAY\<close> implies
  \<open>input_index < number of inputs\<close>, for every \<open>input_index\<close> when \<^verbatim>\<open>ANYONECANPAY\<close> is
  clear (the \<^verbatim>\<open>SINGLE\<close> output access is guarded), and it is undefined only when
  \<^verbatim>\<open>ANYONECANPAY\<close> is set and the index is out of range.
\<close>

theorem sighash_size_defined:
  "((sighash_type AND SIGHASH_ANYONECANPAY \<noteq> 0 \<longrightarrow> unat input_index < length (inputs tx))
      \<longrightarrow> (\<exists>sz. calculate_sighash_size tx input_index sighash_type = Some sz))
   \<and> (sighash_type AND SIGHASH_ANYONECANPAY = 0
      \<longrightarrow> (\<exists>sz. calculate_sighash_size tx input_index sighash_type = Some sz))
   \<and> (calculate_sighash_size tx input_index sighash_type = None
      \<longleftrightarrow> sighash_type AND SIGHASH_ANYONECANPAY \<noteq> 0 \<and> \<not> unat input_index < length (inputs tx))"
  by (simp add: calculate_sighash_size_def Let_def)

theorem sighash_size_defined_witness:
  "(\<exists>sz. calculate_sighash_size two_input_tx 1 0x83 = Some sz)
   \<and> (\<exists>sz. calculate_sighash_size two_input_tx 7 SIGHASH_SINGLE = Some sz)
   \<and> calculate_sighash_size two_input_tx 2 0x83 = None"
  using sighash_size_defined [of "0x83" 1 two_input_tx]
    sighash_size_defined [of SIGHASH_SINGLE 7 two_input_tx]
    sighash_size_defined [of "0x83" 2 two_input_tx]
  by (simp add: two_input_tx_def)

text \<open>
  C4, as stated, fails. With \<^verbatim>\<open>SIGHASH_SINGLE\<close> and no output at the input's index (the
  second input of a transaction with one output), the code adds nothing for the outputs,
  not even the count byte: 95 bytes, where the stated sum is 96. And the function does
  not return a size for every input index: with \<^verbatim>\<open>ANYONECANPAY\<close> and an index past the
  inputs it reads \<^verbatim>\<open>tx.inputs\<close> out of range.
\<close>

theorem sighash_single_missing_output_counterexample:
  "calculate_sighash_size two_input_tx 1 SIGHASH_SINGLE = Some 95
   \<and> 4 + 4 + 4 + inputs_section two_input_tx 1 False
        + outputs_section_spec two_input_tx 1 SIGHASH_SINGLE = 96
   \<and> calculate_sighash_size two_input_tx 2 0x81 = None"
  by (simp add: calculate_sighash_size_def inputs_section_def outputs_section_spec_def
      input_bytes_def two_input_tx_def test_input_def test_output_def)

text \<open>
  C4, amended. Whenever the result is defined (\<^verbatim>\<open>ANYONECANPAY\<close> implies that input \<open>i\<close>
  exists), \<open>calculate_sighash_size tx i flags\<close> is 4 (version) + 4 (locktime) + 4 (sighash
  flag), plus the inputs section (a 1-byte count plus \<open>36 + 1 + len(script_sig) + 4\<close> for
  input \<open>i\<close> alone under \<^verbatim>\<open>ANYONECANPAY\<close>, for every input otherwise), plus the outputs
  section: a 1-byte count plus \<open>8 + 1 + len(script_pubkey)\<close> per output for \<^verbatim>\<open>ALL\<close>; for
  \<^verbatim>\<open>SINGLE\<close> a 1-byte count plus the output at index \<open>i\<close> when that output exists and
  nothing otherwise; the 1-byte count for \<^verbatim>\<open>NONE\<close>. Sums are 64-bit.
\<close>

theorem sighash_size_formula:
  assumes "sighash_type AND SIGHASH_ANYONECANPAY \<noteq> 0 \<longrightarrow> unat i < length (inputs tx)"
  shows "calculate_sighash_size tx i sighash_type =
           Some (4 + 4 + 4
                 + inputs_section tx i (sighash_type AND SIGHASH_ANYONECANPAY \<noteq> 0)
                 + outputs_section tx i (sighash_type AND 0x1f))"
  using assms
  unfolding calculate_sighash_size_def sighash_inputs_fold sighash_outputs_fold
  by (simp add: Let_def inputs_section_def outputs_section_def input_bytes_def output_bytes_def)

theorem sighash_size_formula_witness:
  "calculate_sighash_size two_input_tx 1 0x83 = Some (4 + 4 + 4 + (1 + 41) + 0)
   \<and> calculate_sighash_size two_input_tx 0 SIGHASH_ALL = Some (4 + 4 + 4 + (1 + 41 + 41) + (1 + 34))
   \<and> calculate_sighash_size two_input_tx 0 SIGHASH_SINGLE = Some (4 + 4 + 4 + (1 + 41 + 41) + (1 + 34))
   \<and> calculate_sighash_size two_input_tx 0 SIGHASH_NONE = Some (4 + 4 + 4 + (1 + 41 + 41) + 1)"
  using sighash_size_formula [of "0x83" 1 two_input_tx]
    sighash_size_formula [of SIGHASH_ALL 0 two_input_tx]
    sighash_size_formula [of SIGHASH_SINGLE 0 two_input_tx]
    sighash_size_formula [of SIGHASH_NONE 0 two_input_tx]
  by (simp add: inputs_section_def outputs_section_def input_bytes_def output_bytes_def
      two_input_tx_def test_input_def test_output_def)

section \<open>Properties of the symbolic execution\<close>

subsection \<open>Unfolding one iteration\<close>

lemmas charge_defs = add_total_def add_dispatch_def add_stack_ops_def add_byte_ops_def
  add_hashing_def add_signatures_def

text \<open>
  The definitions that evaluate a step and a whole run. With the weak congruence rules
  for \<open>let\<close> and \<open>case\<close> the simplifier evaluates a bound value before the body that
  uses it.
\<close>

lemmas step_defs = exec_opcode_def fetch_dispatch_def exec_switch_def track_peaks_def
  charge_defs add_warning_def calculate_opcode_cost_def to_u64_def trunc_cycles_def
  fadd_def fmul_def from_nat_def from_u64_def Let_def

lemmas run_defs = estimate_def estimate_with_limits_def Impl_estimate_def start_state_def
  empty_result_def default_limits_def exec_loop.simps step_defs word_le_nat_alt
  word_less_nat_alt

lemmas eval_congs = let_weak_cong prod.case_cong_weak option.case_cong_weak

lemma fetch_dispatch_fields:
  "pc (fetch_dispatch impl s) = pc s + 1"
  "stack_sizes (fetch_dispatch impl s) = stack_sizes s"
  "current_stack_bytes (fetch_dispatch impl s) = current_stack_bytes s"
  by (simp_all add: fetch_dispatch_def charge_defs)

lemma exec_opcode_switch:
  assumes "\<not> is_push combined s"
  shows "exec_opcode rnd impl combined tx i s
        = track_peaks (add_total (calculate_opcode_cost rnd impl (combined ! pc s)
              (snd (exec_switch rnd impl tx i (combined ! pc s) (fetch_dispatch impl s))))
            (fst (exec_switch rnd impl tx i (combined ! pc s) (fetch_dispatch impl s))))"
  using assms
  by (auto simp: exec_opcode_def is_push_def Let_def split_beta fetch_dispatch_fields)

subsection \<open>Warnings\<close>

lemma warnings_exec_switch:
  "warnings (result (fst (exec_switch rnd impl tx i op s))) = warnings (result s)"
  by (simp add: exec_switch_def Let_def add_total_def add_stack_ops_def add_byte_ops_def
      add_hashing_def add_signatures_def split: option.split)

lemma warnings_exec_opcode:
  "warnings (result (exec_opcode rnd impl combined tx i s)) = warnings (result s)"
  using warnings_exec_switch [of rnd impl tx i "combined ! pc s"]
  by (simp add: exec_opcode_def fetch_dispatch_def Let_def track_peaks_def add_total_def
      add_dispatch_def split_beta)

lemma warnings_exec_loop:
  "set (warnings (result (exec_loop rnd impl combined tx i limits s)))
     \<subseteq> set (warnings (result s))
         \<union> {''Opcode count limit exceeded'', ''Stack byte limit exceeded'',
            ''Stack item count limit exceeded''}"
proof (induction rnd impl combined tx i limits s rule: exec_loop.induct)
  case (1 rnd impl combined tx i limits s)
  show ?case
    apply (subst exec_loop.simps)
    using 1 by (auto simp: Let_def add_warning_def warnings_exec_opcode)
qed

text \<open>
  C6. If the combined length exceeds \<open>max_script_size\<close>, the estimate is returned before
  the symbolic execution: every count, total, breakdown field and peak is zero and the
  only warning is the size warning (\<^verbatim>\<open>"Script exceeds size limit"\<close>). If the combined
  length equals \<open>max_script_size\<close>, the estimate is the result of the symbolic execution
  (the loop run from \<open>start_state\<close>), and it does not carry that warning.
\<close>

theorem script_size_limit:
  "(length unlocking_script + length locking_script > unat (max_script_size limits) \<longrightarrow>
      estimate_with_limits rnd impl unlocking_script locking_script tx i limits =
        \<lparr>total_cycles = 0,
         breakdown = \<lparr>parsing = 0, dispatch = 0, stack_ops = 0, byte_ops = 0,
                      hashing = 0, signatures = 0, control_flow = 0\<rparr>,
         peak_stack_bytes = 0, peak_stack_items = 0, signature_count = 0,
         opcode_count = 0, warnings = [''Script exceeds size limit'']\<rparr>)
   \<and> (length unlocking_script + length locking_script = unat (max_script_size limits) \<longrightarrow>
        ''Script exceeds size limit''
          \<notin> set (warnings (estimate_with_limits rnd impl unlocking_script locking_script tx i limits))
        \<and> estimate_with_limits rnd impl unlocking_script locking_script tx i limits
              = result (exec_loop rnd impl (unlocking_script @ locking_script) tx i limits
                         (start_state rnd impl (unlocking_script @ locking_script))))"
proof (intro conjI impI)
  assume "unat (max_script_size limits) < length unlocking_script + length locking_script"
  then show "estimate_with_limits rnd impl unlocking_script locking_script tx i limits =
        \<lparr>total_cycles = 0,
         breakdown = \<lparr>parsing = 0, dispatch = 0, stack_ops = 0, byte_ops = 0,
                      hashing = 0, signatures = 0, control_flow = 0\<rparr>,
         peak_stack_bytes = 0, peak_stack_items = 0, signature_count = 0,
         opcode_count = 0, warnings = [''Script exceeds size limit'']\<rparr>"
    by (simp add: estimate_with_limits_def Impl_estimate_def empty_result_def)
next
  assume eq: "length unlocking_script + length locking_script = unat (max_script_size limits)"
  let ?s0 = "start_state rnd impl (unlocking_script @ locking_script)"
  show run: "estimate_with_limits rnd impl unlocking_script locking_script tx i limits
               = result (exec_loop rnd impl (unlocking_script @ locking_script) tx i limits ?s0)"
    using eq by (simp add: estimate_with_limits_def Impl_estimate_def Let_def)
  have "set (warnings (result (exec_loop rnd impl (unlocking_script @ locking_script) tx i limits ?s0)))
          \<subseteq> set (warnings (result ?s0))
              \<union> {''Opcode count limit exceeded'', ''Stack byte limit exceeded'',
                 ''Stack item count limit exceeded''}"
    by (rule warnings_exec_loop)
  then show "''Script exceeds size limit''
          \<notin> set (warnings (estimate_with_limits rnd impl unlocking_script locking_script tx i limits))"
    unfolding run by (auto simp: start_state_def empty_result_def Let_def)
qed

theorem script_size_limit_witness:
  "estimate_with_limits id example_impl [0x01, 0xaa] [OP_DUP] test_tx 0 two_byte_limits =
        \<lparr>total_cycles = 0,
         breakdown = \<lparr>parsing = 0, dispatch = 0, stack_ops = 0, byte_ops = 0,
                      hashing = 0, signatures = 0, control_flow = 0\<rparr>,
         peak_stack_bytes = 0, peak_stack_items = 0, signature_count = 0,
         opcode_count = 0, warnings = [''Script exceeds size limit'']\<rparr>
   \<and> ''Script exceeds size limit''
        \<notin> set (warnings (estimate_with_limits id example_impl [0x01] [OP_DUP] test_tx 0 two_byte_limits))"
proof -
  have big: "unat (max_script_size two_byte_limits) < length [0x01, 0xaa :: u8] + length [OP_DUP]"
    and eq: "length [0x01 :: u8] + length [OP_DUP] = unat (max_script_size two_byte_limits)"
    by (simp_all add: two_byte_limits_def default_limits_def)
  note rejected = script_size_limit [THEN conjunct1, THEN mp, OF big]
  note admitted = script_size_limit [THEN conjunct2, THEN mp, OF eq, THEN conjunct1]
  show ?thesis
    by (rule conjI [OF rejected admitted])
qed

subsection \<open>The public entry points\<close>

text \<open>
  C9. \<open>estimate\<close> returns what \<open>estimate_with_limits\<close> returns for a default-constructed
  \<open>EstimatorLimits\<close>: 100000000, 10000, 100000000, 1000000 and 10000000000.
\<close>

theorem estimate_is_estimate_with_default_limits:
  "estimate rnd pimpl unlocking_script locking_script tx input_index =
     estimate_with_limits rnd pimpl unlocking_script locking_script tx input_index
       \<lparr>max_script_size = 100000000, max_stack_items = 10000,
        max_stack_item_size = 100000000, max_opcode_count = 1000000,
        max_total_cycles = 10000000000\<rparr>"
  by (simp add: estimate_def estimate_with_limits_def default_limits_def)

subsection \<open>Evaluating a run\<close>

text \<open>The definitions that evaluate the states of a run.\<close>

lemmas trace_defs = executed_states_def exec_trace.simps switched_opcodes_def is_push_def
  start_state_def empty_result_def default_limits_def step_defs word_le_nat_alt word_less_nat_alt

subsection \<open>Push data with 2-byte and 4-byte lengths\<close>

text \<open>
  C2. The loop has a branch for direct pushes and for \<^verbatim>\<open>OP_PUSHDATA1\<close> only. The bytes 0x4d
  (\<^verbatim>\<open>OP_PUSHDATA2\<close>) and 0x4e (\<^verbatim>\<open>OP_PUSHDATA4\<close>) reach the \<^verbatim>\<open>default\<close> case of the
  \<^verbatim>\<open>switch\<close>: nothing is pushed, the cursor advances by one, and the length and payload
  bytes that follow run as opcodes. For the script 4d 01 00 aa (a 1-byte payload 0xaa) and
  every cost model, three opcodes are counted instead of one: 0x01 runs as a direct push
  that swallows 0x00, and 0xaa runs as \<^verbatim>\<open>OP_HASH256\<close>, leaving an item of 32 bytes. For
  4e 01 00 00 00 aa five opcodes are counted.
\<close>

theorem pushdata2_pushdata4_run_as_opcodes:
  "opcode_count (estimate rnd impl [] [OP_PUSHDATA2, 0x01, 0x00, 0xaa] tx i) = 3
   \<and> peak_stack_items (estimate rnd impl [] [OP_PUSHDATA2, 0x01, 0x00, 0xaa] tx i) = 1
   \<and> peak_stack_bytes (estimate rnd impl [] [OP_PUSHDATA2, 0x01, 0x00, 0xaa] tx i) = 32
   \<and> opcode_count (estimate rnd impl [] [OP_PUSHDATA4, 0x01, 0x00, 0x00, 0x00, 0xaa] tx i) = 5
   \<and> peak_stack_items (estimate rnd impl [] [OP_PUSHDATA4, 0x01, 0x00, 0x00, 0x00, 0xaa] tx i) = 1
   \<and> peak_stack_bytes (estimate rnd impl [] [OP_PUSHDATA4, 0x01, 0x00, 0x00, 0x00, 0xaa] tx i) = 32"
  by (simp add: run_defs cong: eval_congs)

subsection \<open>Opcodes without a case of their own\<close>

text \<open>
  C5. An opcode that the cost model does not know (0x61 under a model without entries)
  leaves the size stack alone, but it is charged the fallback twice: 100 by the
  \<^verbatim>\<open>default\<close> case of the \<^verbatim>\<open>switch\<close> and 100 again as the result of
  \<open>calculate_opcode_cost\<close>, 200 in all on top of the dispatch overhead 5. Parsing one byte
  at 0.5 cycles per byte is 0.
\<close>

theorem unknown_opcode_charged_twice:
  "total_cycles (estimate id empty_impl [] [] test_tx 0) = 0
   \<and> total_cycles (estimate id empty_impl [] [0x61] test_tx 0) = 0 + 5 + 100 + 100
   \<and> dispatch (breakdown (estimate id empty_impl [] [0x61] test_tx 0)) = 5
   \<and> parsing (breakdown (estimate id empty_impl [] [0x61] test_tx 0)) = 0
   \<and> peak_stack_items (estimate id empty_impl [] [0x61] test_tx 0) = 0"
  by (simp add: run_defs empty_impl_def cong: eval_congs)

subsection \<open>Opcodes on a stack that is too short\<close>

text \<open>
  C3, as stated, fails: \<^verbatim>\<open>OP_DUP\<close> on the empty size stack emits no warning, and a second
  \<^verbatim>\<open>OP_DUP\<close> behind it is executed and counted as well.
\<close>

theorem underflow_counterexample:
  "warnings (estimate id example_impl [] [OP_DUP] test_tx 0) = []
   \<and> opcode_count (estimate id example_impl [] [OP_DUP, OP_DUP] test_tx 0) = 2
   \<and> warnings (estimate id example_impl [] [OP_DUP, OP_DUP] test_tx 0) = []"
  by (simp add: run_defs example_impl_def constant_model_def cong: eval_congs)

lemma has_case_not_push: "has_case (combined ! pc s) \<Longrightarrow> \<not> is_push combined s"
  by (auto simp: has_case_def is_push_def Let_def)

lemma exec_switch_underflow:
  assumes "has_case op" and "length (stack_sizes s) < required_items op"
  shows "stack_sizes (fst (exec_switch rnd impl tx i op s)) = stack_sizes s
    \<and> current_stack_bytes (fst (exec_switch rnd impl tx i op s)) = current_stack_bytes s
    \<and> opcode_count (result (fst (exec_switch rnd impl tx i op s))) = opcode_count (result s)"
  using assms
  by (auto simp: exec_switch_def has_case_def required_items_def Let_def charge_defs
      split: option.split if_splits)

lemma exec_opcode_underflow:
  assumes hc: "has_case (combined ! pc s)"
    and uf: "length (stack_sizes s) < required_items (combined ! pc s)"
  shows "stack_sizes (exec_opcode rnd impl combined tx i s) = stack_sizes s"
    and "current_stack_bytes (exec_opcode rnd impl combined tx i s) = current_stack_bytes s"
    and "pc (exec_opcode rnd impl combined tx i s) = pc s + 1"
    and "opcode_count (result (exec_opcode rnd impl combined tx i s)) = opcode_count (result s) + 1"
proof -
  let ?f = "fetch_dispatch impl s"
  have uf': "length (stack_sizes ?f) < required_items (combined ! pc s)"
    using uf by (simp add: fetch_dispatch_fields)
  note sw = exec_switch_underflow [OF hc uf', of rnd impl tx i]
  note eq = exec_opcode_switch [OF has_case_not_push [OF hc], of rnd impl tx i]
  show "stack_sizes (exec_opcode rnd impl combined tx i s) = stack_sizes s"
    using sw by (simp add: eq track_peaks_def add_total_def fetch_dispatch_fields)
  show "current_stack_bytes (exec_opcode rnd impl combined tx i s) = current_stack_bytes s"
    using sw by (simp add: eq track_peaks_def add_total_def fetch_dispatch_fields)
  show "pc (exec_opcode rnd impl combined tx i s) = pc s + 1"
    by (simp add: eq track_peaks_def add_total_def pc_exec_switch fetch_dispatch_fields)
  show "opcode_count (result (exec_opcode rnd impl combined tx i s)) = opcode_count (result s) + 1"
    using sw by (simp add: eq track_peaks_def add_total_def) (simp add: fetch_dispatch_def charge_defs)
qed

text \<open>
  C3, amended. An opcode whose case asks for more items than the size stack holds
  (\<^verbatim>\<open>OP_DUP\<close>, \<^verbatim>\<open>OP_SHA256\<close>, \<^verbatim>\<open>OP_HASH256\<close> on an empty stack; \<^verbatim>\<open>OP_SWAP\<close>, \<^verbatim>\<open>OP_CAT\<close>,
  \<^verbatim>\<open>OP_CHECKSIG\<close> on fewer than two items) emits no warning and does not stop the
  execution: the iteration leaves the size stack, its byte total and the warnings as they
  were, counts the opcode and advances the cursor by one, and the loop goes on with the
  state after it whenever it entered the iteration within its limits. In the single-DUP
  scenario (\<open>unlocking = []\<close>, \<open>locking = [0x76]\<close>) exactly one opcode is counted, dispatch
  is 5 under the default dispatch constant 5.0, and the list of warnings is empty.
\<close>

theorem underflow_is_silent:
  "(has_case (combined ! pc s) \<and> length (stack_sizes s) < required_items (combined ! pc s) \<longrightarrow>
      (let s' = exec_opcode rnd impl combined tx i s
       in stack_sizes s' = stack_sizes s \<and> current_stack_bytes s' = current_stack_bytes s
          \<and> warnings (result s') = warnings (result s)
          \<and> pc s' = pc s + 1 \<and> opcode_count (result s') = opcode_count (result s) + 1
          \<and> (pc s < length combined \<and> opcode_count (result s) < max_opcode_count limits
               \<and> current_stack_bytes s \<le> max_stack_item_size limits
               \<and> length (stack_sizes s) \<le> unat (max_stack_items limits) \<longrightarrow>
              exec_loop rnd impl combined tx i limits s = exec_loop rnd impl combined tx i limits s')))
   \<and> (c_dispatch impl = 5 \<longrightarrow>
        (let r = estimate rnd impl [] [OP_DUP] tx i
         in opcode_count r = 1 \<and> dispatch (breakdown r) = 5 \<and> warnings r = []))"
proof (intro conjI impI)
  assume a: "has_case (combined ! pc s) \<and> length (stack_sizes s) < required_items (combined ! pc s)"
  note u = exec_opcode_underflow [OF conjunct1 [OF a] conjunct2 [OF a], of rnd impl tx i]
  have loop: "exec_loop rnd impl combined tx i limits s
        = exec_loop rnd impl combined tx i limits (exec_opcode rnd impl combined tx i s)"
    if "pc s < length combined \<and> opcode_count (result s) < max_opcode_count limits
               \<and> current_stack_bytes s \<le> max_stack_item_size limits
               \<and> length (stack_sizes s) \<le> unat (max_stack_items limits)"
    using that by (subst exec_loop.simps) (auto simp: Let_def u)
  show "let s' = exec_opcode rnd impl combined tx i s
       in stack_sizes s' = stack_sizes s \<and> current_stack_bytes s' = current_stack_bytes s
          \<and> warnings (result s') = warnings (result s)
          \<and> pc s' = pc s + 1 \<and> opcode_count (result s') = opcode_count (result s) + 1
          \<and> (pc s < length combined \<and> opcode_count (result s) < max_opcode_count limits
               \<and> current_stack_bytes s \<le> max_stack_item_size limits
               \<and> length (stack_sizes s) \<le> unat (max_stack_items limits) \<longrightarrow>
              exec_loop rnd impl combined tx i limits s = exec_loop rnd impl combined tx i limits s')"
    using loop by (simp add: Let_def u warnings_exec_opcode)
next
  assume "c_dispatch impl = 5"
  then show "let r = estimate rnd impl [] [OP_DUP] tx i
         in opcode_count r = 1 \<and> dispatch (breakdown r) = 5 \<and> warnings r = []"
    by (simp add: run_defs cong: eval_congs)
qed

text \<open>
  The theorem at the start state of the script 76 76 under the example model, and the
  single-DUP scenario under that model.
\<close>

theorem underflow_is_silent_witness:
  "(let s = start_state id example_impl [OP_DUP, OP_DUP];
        s' = exec_opcode id example_impl [OP_DUP, OP_DUP] test_tx 0 s
    in stack_sizes s' = stack_sizes s \<and> current_stack_bytes s' = current_stack_bytes s
       \<and> warnings (result s') = warnings (result s)
       \<and> pc s' = pc s + 1 \<and> opcode_count (result s') = opcode_count (result s) + 1
       \<and> exec_loop id example_impl [OP_DUP, OP_DUP] test_tx 0 default_limits s
           = exec_loop id example_impl [OP_DUP, OP_DUP] test_tx 0 default_limits s')
   \<and> (let r = estimate id example_impl [] [OP_DUP] test_tx 0
      in opcode_count r = 1 \<and> dispatch (breakdown r) = 5 \<and> warnings r = [])"
proof -
  let ?s = "start_state id example_impl [OP_DUP, OP_DUP]"
  have s: "pc ?s = 0" "stack_sizes ?s = []" "current_stack_bytes ?s = 0"
    "opcode_count (result ?s) = 0"
    by (simp_all add: start_state_def empty_result_def Let_def)
  have hyp: "has_case ([OP_DUP, OP_DUP] ! pc ?s)
      \<and> length (stack_sizes ?s) < required_items ([OP_DUP, OP_DUP] ! pc ?s)"
    by (simp add: s has_case_def required_items_def)
  have lim: "pc ?s < length [OP_DUP, OP_DUP]
      \<and> opcode_count (result ?s) < max_opcode_count default_limits
      \<and> current_stack_bytes ?s \<le> max_stack_item_size default_limits
      \<and> length (stack_sizes ?s) \<le> unat (max_stack_items default_limits)"
    by (simp add: s default_limits_def)
  have d: "c_dispatch example_impl = 5"
    by (simp add: example_impl_def)
  from underflow_is_silent [of "[OP_DUP, OP_DUP]" ?s id example_impl test_tx 0 default_limits]
    hyp lim d
  show ?thesis
    by (simp only: Let_def simp_thms)
qed

subsection \<open>Cycles that no breakdown field records\<close>

lemma unattributed_exec_switch:
  assumes "op \<noteq> OP_CHECKSIG"
  shows "unattributed (add_total (calculate_opcode_cost rnd impl op (snd (exec_switch rnd impl tx i op s)))
            (fst (exec_switch rnd impl tx i op s)))
         = unattributed s + default_case_cycles rnd impl op"
  using assms
  by (simp add: exec_switch_def Let_def unattributed_def breakdown_sum_def charge_defs
      default_case_cycles_def has_case_def)

lemma unattributed_fetch_dispatch: "unattributed (fetch_dispatch impl s) = unattributed s"
  by (simp add: unattributed_def breakdown_sum_def fetch_dispatch_def charge_defs)

lemma unattributed_track_peaks: "unattributed (track_peaks t) = unattributed t"
  by (simp add: unattributed_def track_peaks_def)

lemma unattributed_updates:
  "unattributed (pc_update f t) = unattributed t"
  "unattributed (stack_sizes_update g t) = unattributed t"
  "unattributed (current_stack_bytes_update h t) = unattributed t"
  by (simp_all add: unattributed_def)

lemma unattributed_exec_opcode:
  assumes "is_push combined s \<or> combined ! pc s \<noteq> OP_CHECKSIG"
  shows "unattributed (exec_opcode rnd impl combined tx i s)
         = unattributed s + (if is_push combined s then 0
                       else default_case_cycles rnd impl (combined ! pc s))"
proof (cases "is_push combined s")
  case True
  then show ?thesis
    by (auto simp: exec_opcode_def is_push_def Let_def fetch_dispatch_fields
        unattributed_track_peaks unattributed_fetch_dispatch unattributed_updates)
next
  case False
  with assms have op: "combined ! pc s \<noteq> OP_CHECKSIG" by simp
  show ?thesis
    using False unattributed_exec_switch [OF op, of rnd impl tx i "fetch_dispatch impl s"]
    by (simp add: exec_opcode_switch unattributed_track_peaks unattributed_fetch_dispatch)
qed

lemma switched_opcodes_Cons:
  "switched_opcodes combined (s # tr)
     = (if is_push combined s then [] else [combined ! pc s]) @ switched_opcodes combined tr"
  by (simp add: switched_opcodes_def)

lemma switched_opcodes_Nil: "switched_opcodes combined [] = []"
  by (simp add: switched_opcodes_def)

lemma unattributed_add_warning: "unattributed (add_warning w s) = unattributed s"
  by (simp add: unattributed_def add_warning_def)

lemma unattributed_exec_loop:
  assumes "OP_CHECKSIG \<notin> set (switched_opcodes combined (exec_trace rnd impl combined tx i limits s))"
  shows "unattributed (exec_loop rnd impl combined tx i limits s)
         = unattributed s + sum_list (map (default_case_cycles rnd impl)
             (switched_opcodes combined (exec_trace rnd impl combined tx i limits s)))"
  using assms
proof (induction rnd impl combined tx i limits s rule: exec_loop.induct)
  case (1 rnd impl combined tx i limits s)
  show ?case
  proof (cases "pc s < length combined \<and> \<not> max_opcode_count limits \<le> opcode_count (result s)")
    case False
    then show ?thesis
      by (subst exec_loop.simps, subst exec_trace.simps)
         (auto simp: switched_opcodes_def unattributed_add_warning)
  next
    case True
    let ?s' = "exec_opcode rnd impl combined tx i s"
    let ?stop = "current_stack_bytes ?s' > max_stack_item_size limits
                   \<or> length (stack_sizes ?s') > unat (max_stack_items limits)"
    have tr: "exec_trace rnd impl combined tx i limits s
              = s # (if ?stop then [] else exec_trace rnd impl combined tx i limits ?s')"
      using True by (subst exec_trace.simps) (simp add: Let_def)
    from "1.prems" tr have nochk: "is_push combined s \<or> combined ! pc s \<noteq> OP_CHECKSIG"
      by (auto simp: switched_opcodes_Cons split: if_splits)
    note step = unattributed_exec_opcode [OF nochk, of rnd impl tx i]
    show ?thesis
    proof (cases ?stop)
      case True
      have "unattributed (exec_loop rnd impl combined tx i limits s) = unattributed ?s'"
        using \<open>pc s < length combined \<and> _\<close> True
        by (subst exec_loop.simps) (auto simp: Let_def unattributed_add_warning)
      then show ?thesis
        using True tr step by (simp add: switched_opcodes_Cons switched_opcodes_Nil)
    next
      case False
      have loop: "exec_loop rnd impl combined tx i limits s
                  = exec_loop rnd impl combined tx i limits ?s'"
        using \<open>pc s < length combined \<and> _\<close> False
        by (subst exec_loop.simps) (auto simp: Let_def)
      have "OP_CHECKSIG \<notin> set (switched_opcodes combined
               (exec_trace rnd impl combined tx i limits ?s'))"
        using "1.prems" tr False by (auto simp: switched_opcodes_Cons split: if_splits)
      with "1.IH" [OF _ _ refl] \<open>pc s < length combined \<and> _\<close> False
      have "unattributed (exec_loop rnd impl combined tx i limits ?s')
            = unattributed ?s' + sum_list (map (default_case_cycles rnd impl)
                (switched_opcodes combined (exec_trace rnd impl combined tx i limits ?s')))"
        by auto
      then show ?thesis
        using False tr step loop by (simp add: switched_opcodes_Cons)
    qed
  qed
qed

lemma unattributed_start: "unattributed (start_state rnd impl combined) = 0"
  by (simp add: unattributed_def start_state_def empty_result_def breakdown_sum_def Let_def)

text \<open>
  C1, as stated, fails: \<^verbatim>\<open>OP_SPLIT\<close> (0x7f) has no case in the \<^verbatim>\<open>switch\<close>. Under a model
  without entries the one-opcode script 7f has a total of 205 cycles, and the seven
  breakdown fields sum to 5.
\<close>

theorem unattributed_default_case_counterexample:
  "total_cycles (estimate id empty_impl [] [OP_SPLIT] test_tx 0) = 205
   \<and> breakdown (estimate id empty_impl [] [OP_SPLIT] test_tx 0)
       = \<lparr>parsing = 0, dispatch = 5, stack_ops = 0, byte_ops = 0,
          hashing = 0, signatures = 0, control_flow = 0\<rparr>"
  by (simp add: run_defs empty_impl_def cong: eval_congs)

text \<open>
  C1, amended. For every pair of scripts, transaction, input index and limits, if the
  run hands no \<^verbatim>\<open>OP_CHECKSIG\<close> to the \<^verbatim>\<open>switch\<close>, then \<open>total_cycles\<close> is the sum of the
  seven breakdown fields plus the cycles of the opcodes that the \<^verbatim>\<open>default\<close> case took
  (for each, the 100 of that case and the cost model's figure for the opcode), which the
  estimate records in no category. Sums are 64-bit.
\<close>

theorem total_is_breakdown_plus_unattributed:
  assumes "OP_CHECKSIG \<notin> set (switched_opcodes (unlocking_script @ locking_script)
             (executed_states rnd impl unlocking_script locking_script tx i limits))"
  shows "total_cycles (estimate_with_limits rnd impl unlocking_script locking_script tx i limits)
         = (let b = breakdown (estimate_with_limits rnd impl unlocking_script locking_script tx i limits)
            in parsing b + dispatch b + stack_ops b + byte_ops b + hashing b + signatures b
               + control_flow b)
           + unattributed_cycles rnd impl unlocking_script locking_script tx i limits"
proof (cases "length (unlocking_script @ locking_script) > unat (max_script_size limits)")
  case True
  then show ?thesis
    by (simp add: estimate_with_limits_def Impl_estimate_def empty_result_def
        unattributed_cycles_def executed_states_def switched_opcodes_def)
next
  case False
  let ?c = "unlocking_script @ locking_script"
  let ?s0 = "start_state rnd impl ?c"
  from False have es: "executed_states rnd impl unlocking_script locking_script tx i limits
      = exec_trace rnd impl ?c tx i limits ?s0"
    by (simp add: executed_states_def Let_def)
  from False have est: "estimate_with_limits rnd impl unlocking_script locking_script tx i limits
      = result (exec_loop rnd impl ?c tx i limits ?s0)"
    by (simp add: estimate_with_limits_def Impl_estimate_def Let_def)
  from assms have "OP_CHECKSIG \<notin> set (switched_opcodes ?c (exec_trace rnd impl ?c tx i limits ?s0))"
    by (simp add: es)
  from unattributed_exec_loop [OF this]
  have "unattributed (exec_loop rnd impl ?c tx i limits ?s0)
        = unattributed_cycles rnd impl unlocking_script locking_script tx i limits"
    by (simp add: unattributed_start unattributed_cycles_def es)
  then show ?thesis
    by (simp add: est unattributed_def breakdown_sum_def Let_def algebra_simps)
qed

text \<open>
  The theorem for a push, a \<^verbatim>\<open>OP_DUP\<close> and a \<^verbatim>\<open>OP_SPLIT\<close> under the example model: the run
  hands \<^verbatim>\<open>OP_DUP\<close> and \<^verbatim>\<open>OP_SPLIT\<close> to the \<^verbatim>\<open>switch\<close>.
\<close>

theorem total_is_breakdown_plus_unattributed_witness:
  "total_cycles (estimate_with_limits id example_impl [0x01, 0xaa] [OP_DUP, OP_SPLIT] test_tx 0 default_limits)
     = (let b = breakdown (estimate_with_limits id example_impl [0x01, 0xaa] [OP_DUP, OP_SPLIT] test_tx 0 default_limits)
        in parsing b + dispatch b + stack_ops b + byte_ops b + hashing b + signatures b
           + control_flow b)
       + unattributed_cycles id example_impl [0x01, 0xaa] [OP_DUP, OP_SPLIT] test_tx 0 default_limits"
proof -
  have "switched_opcodes ([0x01, 0xaa] @ [OP_DUP, OP_SPLIT])
          (executed_states id example_impl [0x01, 0xaa] [OP_DUP, OP_SPLIT] test_tx 0 default_limits)
        = [OP_DUP, OP_SPLIT]"
    by (simp add: trace_defs example_impl_def constant_model_def cong: eval_congs)
  then have "OP_CHECKSIG \<notin> set (switched_opcodes ([0x01, 0xaa] @ [OP_DUP, OP_SPLIT])
          (executed_states id example_impl [0x01, 0xaa] [OP_DUP, OP_SPLIT] test_tx 0 default_limits))"
    by simp
  then show ?thesis
    by (rule total_is_breakdown_plus_unattributed)
qed

subsection \<open>The formulas are monotone in the coefficients\<close>










subsection \<open>The control flow does not depend on the cost model\<close>




subsection \<open>The total as a sum over the iterations\<close>










subsection \<open>The conversions of a run stay in the range where they are defined\<close>

















end
